theory Spec2Isabelle
  imports Complex_Main "HOL-Library.AList"
begin

section \<open>Data model of the quiz server\<close>

text \<open>
  The server keeps three process-wide objects: \<^verbatim>\<open>gameState\<close>, \<^verbatim>\<open>parties\<close> and
  \<^verbatim>\<open>todayPlayers\<close>. They are modelled as one record that every handler takes and
  returns. A JavaScript \<^verbatim>\<open>Map\<close> is an association list in insertion order:
  \<^verbatim>\<open>get\<close> is \<open>map_of\<close>, \<^verbatim>\<open>set\<close> is \<open>AList.update\<close> (it replaces in place or
  appends), \<^verbatim>\<open>delete\<close> is \<open>AList.delete\<close>. Numbers that the code computes with
  \<^verbatim>\<open>Math.random\<close>, division and \<^verbatim>\<open>Math.floor\<close>/\<^verbatim>\<open>Math.round\<close> are exact rationals
  here, where the source has IEEE doubles. Every value of \<^verbatim>\<open>Math.random()\<close> is a
  parameter of the function that draws it. Emitted socket events are left out unless a
  property below is about them.
\<close>

type_synonym sid = string

datatype game_status = Waiting | Starting | Playing | Finished

record play_result =
  position :: int
  totalPlayers :: int
  questionsCorrect :: int
  gameNumber :: int

record day_record =
  hasPlayed :: bool
  result :: play_result

text \<open>
  A player object. Its \<^verbatim>\<open>id\<close> is the key under which \<^verbatim>\<open>gameState.players\<close> holds it
  (set on connection, never assigned again), so the model uses the key. \<^verbatim>\<open>name\<close> is
  always \<^verbatim>\<open>'Anonymous'\<close> and is left out. The fields \<^verbatim>\<open>ready\<close>, \<^verbatim>\<open>leftGame\<close> and
  \<^verbatim>\<open>participatedInGame\<close> are absent (falsy) on a fresh object.
\<close>

record player =
  persistentId :: "string option"
  alive :: bool
  currentAnswer :: "int option"
  correctAnswers :: int
  hasPlayedToday :: bool
  todayResult :: "play_result option"
  partyCode :: "string option"
  partyDisplayName :: "string option"
  ready :: bool
  leftGame :: bool
  participatedInGame :: bool

datatype member_status = MemberWaiting | MemberAlive | MemberEliminated

record member =
  socketId :: sid
  displayName :: string
  memberStatus :: member_status
  eliminatedOnQuestion :: "nat option"

record party =
  code :: string
  members :: "member list"

record question =
  correct :: string
  answers :: "string list"

record server =
  status :: game_status
  players :: "(sid \<times> player) list"
  currentQuestion :: nat
  questions :: "question list"
  totalParticipants :: int
  waitingCount :: int
  ghostPlayers :: int
  aliveGhosts :: int
  parties :: "(string \<times> party) list"
  todayDate :: "string option"
  todayPlayers :: "(string \<times> day_record) list"

definition boot :: server where
  "boot = \<lparr> status = Waiting, players = [], currentQuestion = 0, questions = [],
     totalParticipants = 0, waitingCount = 0, ghostPlayers = 0, aliveGhosts = 0,
     parties = [], todayDate = None, todayPlayers = [] \<rparr>"

definition newPlayer :: player where
  "newPlayer = \<lparr> persistentId = None, alive = True, currentAnswer = None,
     correctAnswers = 0, hasPlayedToday = False, todayResult = None, partyCode = None,
     partyDisplayName = None, ready = False, leftGame = False,
     participatedInGame = False \<rparr>"

text \<open>The filter \<^verbatim>\<open>p.alive && !p.leftGame && p.participatedInGame\<close> used throughout.\<close>

definition active :: "player \<Rightarrow> bool" where
  "active p = (alive p \<and> \<not> leftGame p \<and> participatedInGame p)"

definition alivePlayers :: "(sid \<times> player) list \<Rightarrow> (sid \<times> player) list" where
  "alivePlayers ps = filter (\<lambda>kp. active (snd kp)) ps"

definition realWaiting :: "(sid \<times> player) list \<Rightarrow> int" where
  "realWaiting ps = int (length (filter (\<lambda>kp. \<not> hasPlayedToday (snd kp)) ps))"

definition mapPlayers :: "(player \<Rightarrow> player) \<Rightarrow> (sid \<times> player) list \<Rightarrow> (sid \<times> player) list" where
  "mapPlayers f ps = map (\<lambda>kp. (fst kp, f (snd kp))) ps"

section \<open>Session handlers\<close>

definition connect :: "sid \<Rightarrow> server \<Rightarrow> server" where
  "connect s g = g\<lparr> players := AList.update s newPlayer (players g) \<rparr>"

text \<open>\<^verbatim>\<open>todayPlayers.players.get(persistentId)\<close>: a null identity is never a key.\<close>

definition ledgerGet :: "(string \<times> day_record) list \<Rightarrow> string option \<Rightarrow> day_record option" where
  "ledgerGet l k = (case k of None \<Rightarrow> None | Some i \<Rightarrow> map_of l i)"

definition identify :: "sid \<Rightarrow> string option \<Rightarrow> string \<Rightarrow> server \<Rightarrow> server" where
  "identify s persistent today g =
     (case map_of (players g) s of
        None \<Rightarrow> g
      | Some p \<Rightarrow>
          let g1 = (if todayDate g \<noteq> Some today
                    then g\<lparr> todayDate := Some today, todayPlayers := [] \<rparr> else g);
              p1 = (case ledgerGet (todayPlayers g1) persistent of
                      Some d \<Rightarrow> p\<lparr> persistentId := persistent, hasPlayedToday := hasPlayed d,
                                  todayResult := Some (result d) \<rparr>
                    | None \<Rightarrow> p\<lparr> persistentId := persistent, hasPlayedToday := False,
                                todayResult := None \<rparr>);
              g2 = g1\<lparr> players := AList.update s p1 (players g1) \<rparr>
          in if \<not> hasPlayedToday p1 \<and> status g2 = Waiting
             then g2\<lparr> waitingCount := realWaiting (players g2) + ghostPlayers g2 \<rparr>
             else g2)"

text \<open>
  Removing a session from the party its \<^verbatim>\<open>partyCode\<close> names: the member list is
  filtered, and an emptied party is deleted. Shared by \<^verbatim>\<open>disconnect\<close> and
  \<^verbatim>\<open>leaveParty\<close>, which both write it out.
\<close>

definition removeFromParty :: "sid \<Rightarrow> string \<Rightarrow> (string \<times> party) list \<Rightarrow> (string \<times> party) list" where
  "removeFromParty s c ps =
     (case map_of ps c of
        None \<Rightarrow> ps
      | Some pt \<Rightarrow>
          let ms = filter (\<lambda>m. socketId m \<noteq> s) (members pt)
          in if length ms = 0 then AList.delete c ps
             else AList.update c (pt\<lparr> members := ms \<rparr>) ps)"

definition disconnect :: "sid \<Rightarrow> server \<Rightarrow> server" where
  "disconnect s g =
     (let g1 = (case map_of (players g) s of
                  None \<Rightarrow> g
                | Some p \<Rightarrow>
                    (case partyCode p of
                       None \<Rightarrow> g
                     | Some c \<Rightarrow> if c \<noteq> [] then g\<lparr> parties := removeFromParty s c (parties g) \<rparr>
                                else g));
          g2 = (case map_of (players g1) s of
                  None \<Rightarrow> g1
                | Some p \<Rightarrow>
                    if \<not> hasPlayedToday p \<and> status g1 = Waiting
                    then g1\<lparr> waitingCount :=
                           realWaiting (filter (\<lambda>kp. fst kp \<noteq> s) (players g1)) + ghostPlayers g1 \<rparr>
                    else g1)
      in g2\<lparr> players := AList.delete s (players g2) \<rparr>)"

definition leaveGame :: "sid \<Rightarrow> server \<Rightarrow> server" where
  "leaveGame s g =
     (case map_of (players g) s of
        None \<Rightarrow> g
      | Some p \<Rightarrow> g\<lparr> players :=
          AList.update s (p\<lparr> ready := False, alive := False, leftGame := True \<rparr>) (players g) \<rparr>)"

text \<open>
  \<^verbatim>\<open>submitAnswer\<close> stores what the client sent: \<open>None\<close> is a null, \<open>Some k\<close> the
  number \<open>k\<close>. The handler compares nothing with the number of answers.
\<close>

definition submitAnswer :: "sid \<Rightarrow> int option \<Rightarrow> server \<Rightarrow> server" where
  "submitAnswer s answerIndex g =
     (case map_of (players g) s of
        None \<Rightarrow> g
      | Some p \<Rightarrow>
          if alive p \<and> status g = Playing \<and> \<not> leftGame p
          then g\<lparr> players := AList.update s (p\<lparr> currentAnswer := answerIndex \<rparr>) (players g) \<rparr>
          else g)"

section \<open>Party handlers\<close>

text \<open>
  Strings are lists of 8-bit characters. \<^verbatim>\<open>trim\<close> removes the ASCII white space at
  both ends, \<^verbatim>\<open>toUpperCase\<close> maps a..z to A..Z.
\<close>

definition isSpace :: "char \<Rightarrow> bool" where
  "isSpace c = (of_char c \<in> {9, 10, 11, 12, 13, 32 :: nat})"

definition trim :: "string \<Rightarrow> string" where
  "trim x = rev (dropWhile isSpace (rev (dropWhile isSpace x)))"

definition upperChar :: "char \<Rightarrow> char" where
  "upperChar c = (let n = (of_char c :: nat) in if 97 \<le> n \<and> n \<le> 122 then char_of (n - 32) else c)"

definition toUpperCase :: "string \<Rightarrow> string" where
  "toUpperCase x = map upperChar x"

datatype ack = Failure string | Success string "member list"

text \<open>
  \<^verbatim>\<open>generatePartyCode\<close> draws six-letter codes until one is not a key of
  \<^verbatim>\<open>parties\<close>. The successive draws are the list \<open>draws\<close>; \<open>None\<close> says that the
  loop has not ended on them.
\<close>

definition generatePartyCode :: "(string \<times> party) list \<Rightarrow> string list \<Rightarrow> string option" where
  "generatePartyCode ps draws = find (\<lambda>c. map_of ps c = None) draws"

text \<open>
  The checks on a display name, in the source's order. \<open>profane\<close> is the predicate of
  the \<^verbatim>\<open>bad-words\<close> package, a parameter here.
\<close>

definition nameError :: "(string \<Rightarrow> bool) \<Rightarrow> string \<Rightarrow> string option" where
  "nameError profane name =
     (if name = [] \<or> length (trim name) = 0 then Some ''Display name required''
      else if length name > 10 then Some ''Display name too long (max 10 chars)''
      else if profane name then Some ''Display name contains inappropriate language''
      else None)"

definition createParty ::
  "(string \<Rightarrow> bool) \<Rightarrow> sid \<Rightarrow> string \<Rightarrow> string list \<Rightarrow> server \<Rightarrow> (server \<times> ack) option" where
  "createParty profane s name draws g =
     (case map_of (players g) s of
        None \<Rightarrow> Some (g, Failure ''Player not found'')
      | Some p \<Rightarrow>
          (case nameError profane name of
             Some e \<Rightarrow> Some (g, Failure e)
           | None \<Rightarrow>
               (case generatePartyCode (parties g) draws of
                  None \<Rightarrow> None
                | Some c \<Rightarrow>
                    let ms = [\<lparr> socketId = s, displayName = trim name,
                               memberStatus = MemberWaiting, eliminatedOnQuestion = None \<rparr>];
                        g1 = g\<lparr> parties := AList.update c \<lparr> code = c, members = ms \<rparr> (parties g) \<rparr>;
                        g2 = g1\<lparr> players := AList.update s
                               (p\<lparr> partyCode := Some c, partyDisplayName := Some (trim name) \<rparr>)
                               (players g1) \<rparr>
                    in Some (g2, Success c ms))))"

definition joinParty ::
  "(string \<Rightarrow> bool) \<Rightarrow> sid \<Rightarrow> string \<Rightarrow> string \<Rightarrow> server \<Rightarrow> server \<times> ack" where
  "joinParty profane s c name g =
     (case map_of (players g) s of
        None \<Rightarrow> (g, Failure ''Player not found'')
      | Some p \<Rightarrow>
          (case nameError profane name of
             Some e \<Rightarrow> (g, Failure e)
           | None \<Rightarrow>
               if c = [] then (g, Failure ''Invalid party code'')
               else
                 (case map_of (parties g) (toUpperCase c) of
                    None \<Rightarrow> (g, Failure ''Invalid party code'')
                  | Some pt \<Rightarrow>
                      if length (members pt) \<ge> 5
                      then (g, Failure ''Party is full (max 5 members)'')
                      else if \<exists>m \<in> set (members pt). socketId m = s
                      then (g, Failure ''Already in this party'')
                      else
                        let ms = members pt @ [\<lparr> socketId = s, displayName = trim name,
                                   memberStatus = MemberWaiting, eliminatedOnQuestion = None \<rparr>];
                            g1 = g\<lparr> parties :=
                                   AList.update (toUpperCase c) (pt\<lparr> members := ms \<rparr>) (parties g) \<rparr>;
                            g2 = g1\<lparr> players := AList.update s
                                   (p\<lparr> partyCode := Some (toUpperCase c),
                                      partyDisplayName := Some (trim name) \<rparr>) (players g1) \<rparr>
                        in (g2, Success (toUpperCase c) ms))))"

definition leaveParty :: "sid \<Rightarrow> server \<Rightarrow> server" where
  "leaveParty s g =
     (case map_of (players g) s of
        None \<Rightarrow> g
      | Some p \<Rightarrow>
          (case partyCode p of
             None \<Rightarrow> g
           | Some c \<Rightarrow>
               if c = [] then g
               else
                 let g1 = g\<lparr> parties := removeFromParty s c (parties g) \<rparr>
                 in g1\<lparr> players := AList.update s
                        (p\<lparr> partyCode := None, partyDisplayName := None \<rparr>) (players g1) \<rparr>))"

section \<open>Game lifecycle\<close>

text \<open>
  \<^verbatim>\<open>autoStartGame\<close> up to the first \<^verbatim>\<open>await\<close> inside \<^verbatim>\<open>startGame\<close>: the guard on the
  status, the players who have not played today marked ready, then the first two
  assignments of \<^verbatim>\<open>startGame\<close>.
\<close>

definition autoStartGame :: "server \<Rightarrow> server" where
  "autoStartGame g =
     (if status g \<noteq> Waiting then g
      else if length (filter (\<lambda>kp. \<not> hasPlayedToday (snd kp)) (players g)) = 0 then g
      else g\<lparr> players := mapPlayers (\<lambda>p. if \<not> hasPlayedToday p then p\<lparr> ready := True \<rparr> else p)
                            (players g),
               status := Starting, waitingCount := 0 \<rparr>)"

definition markMember :: "sid \<Rightarrow> (member \<Rightarrow> member) \<Rightarrow> member list \<Rightarrow> member list" where
  "markMember s f ms =
     (case find (\<lambda>m. socketId m = s) ms of
        None \<Rightarrow> ms
      | Some m \<Rightarrow> (let i = length (takeWhile (\<lambda>m. socketId m \<noteq> s) ms) in ms[i := f m]))"

text \<open>
  The party bookkeeping of one player: when its \<^verbatim>\<open>partyCode\<close> is truthy and names a
  party, the first member with its socket id is changed by \<open>f\<close>.
\<close>

definition markParty ::
  "sid \<Rightarrow> string option \<Rightarrow> (member \<Rightarrow> member) \<Rightarrow> (string \<times> party) list \<Rightarrow> (string \<times> party) list" where
  "markParty s pc f ps =
     (case pc of
        None \<Rightarrow> ps
      | Some c \<Rightarrow>
          if c = [] then ps
          else (case map_of ps c of
                  None \<Rightarrow> ps
                | Some pt \<Rightarrow> AList.update c (pt\<lparr> members := markMember s f (members pt) \<rparr>) ps))"

text \<open>
  \<^verbatim>\<open>startGame\<close> after the questions have arrived: every connected player who has not
  played today and has not left takes part.
\<close>

definition eligible :: "player \<Rightarrow> bool" where
  "eligible p = (\<not> hasPlayedToday p \<and> \<not> leftGame p)"

definition enrol :: "player \<Rightarrow> player" where
  "enrol p = (if eligible p
     then p\<lparr> alive := True, correctAnswers := 0, currentAnswer := None,
             participatedInGame := True, hasPlayedToday := True \<rparr>
     else p)"

definition startGameEnrol :: "question list \<Rightarrow> server \<Rightarrow> server" where
  "startGameEnrol qs g =
     (let joined = filter (\<lambda>kp. eligible (snd kp)) (players g);
          pts = fold (\<lambda>kp. markParty (fst kp) (partyCode (snd kp)) (\<lambda>m. m\<lparr> memberStatus := MemberAlive \<rparr>))
                  joined (parties g)
      in g\<lparr> questions := qs, currentQuestion := 0,
             players := mapPlayers enrol (players g), parties := pts,
             totalParticipants := int (length joined) + ghostPlayers g \<rparr>)"

text \<open>Writing a terminal result for one player: ledger entry and the player's own copy.\<close>

definition saveResult :: "sid \<Rightarrow> player \<Rightarrow> play_result \<Rightarrow> server \<Rightarrow> server" where
  "saveResult s p r g =
     (case persistentId p of
        None \<Rightarrow> g
      | Some i \<Rightarrow>
          if i = [] then g
          else g\<lparr> todayPlayers := AList.update i \<lparr> hasPlayed = True, result = r \<rparr> (todayPlayers g),
                  players := AList.update s (p\<lparr> hasPlayedToday := True, todayResult := Some r \<rparr>)
                               (players g) \<rparr>)"

definition saveWinner :: "int \<Rightarrow> sid \<Rightarrow> server \<Rightarrow> server" where
  "saveWinner gn s g =
     (case map_of (players g) s of
        None \<Rightarrow> g
      | Some p \<Rightarrow> saveResult s p \<lparr> position = 1, totalPlayers = totalParticipants g,
                     questionsCorrect = correctAnswers p, gameNumber = gn \<rparr> g)"

text \<open>
  \<^verbatim>\<open>endGame\<close>: the status, then the winners' results. The second component is the
  \<^verbatim>\<open>winners\<close> array (socket id and correct count). The leaderboard is not modelled.
  \<open>gn\<close> is the value of \<^verbatim>\<open>getGameNumber()\<close>.
\<close>

definition endGame :: "int \<Rightarrow> server \<Rightarrow> server \<times> (sid \<times> int) list" where
  "endGame gn g =
     (let g1 = g\<lparr> status := Finished \<rparr>;
          ws = alivePlayers (players g1);
          g2 = fold (\<lambda>kp. saveWinner gn (fst kp)) ws g1
      in (g2, map (\<lambda>kp. (fst kp, correctAnswers (snd kp))) ws))"

definition nextQuestion :: "int \<Rightarrow> server \<Rightarrow> server" where
  "nextQuestion gn g =
     (if currentQuestion g \<ge> length (questions g) then fst (endGame gn g)
      else g\<lparr> players := mapPlayers (\<lambda>p. p\<lparr> currentAnswer := None \<rparr>) (players g) \<rparr>)"

text \<open>\<^verbatim>\<open>startGame\<close> after the countdown.\<close>

definition startGamePlay :: "int \<Rightarrow> server \<Rightarrow> server" where
  "startGamePlay gn g = nextQuestion gn (g\<lparr> status := Playing \<rparr>)"

text \<open>\<open>u\<close> is the value of \<^verbatim>\<open>Math.random()\<close>.\<close>

definition resetGame :: "rat \<Rightarrow> server \<Rightarrow> server" where
  "resetGame u g =
     (let ghostCount = \<lfloor>u * 11\<rfloor> + 95;
          ps = mapPlayers (\<lambda>p. p\<lparr> ready := False, alive := True, correctAnswers := 0,
                 participatedInGame := False, partyCode := None, partyDisplayName := None \<rparr>)
                 (players g)
      in g\<lparr> status := Waiting, currentQuestion := 0, totalParticipants := 0,
             ghostPlayers := ghostCount, aliveGhosts := ghostCount, parties := [],
             players := ps, waitingCount := realWaiting ps + ghostCount \<rparr>)"

text \<open>The midnight job and the start of the process.\<close>

definition midnightReset :: "string \<Rightarrow> server \<Rightarrow> server" where
  "midnightReset today g = g\<lparr> todayDate := Some today, todayPlayers := [] \<rparr>"

text \<open>
  \<^verbatim>\<open>loadTodayPlayers\<close>; \<open>file\<close> is the content of \<^verbatim>\<open>today-players.json\<close> (its date and
  its entries) when the file exists and parses. \<^verbatim>\<open>new Map(entries)\<close> sets the entries
  one after the other.
\<close>

definition loadTodayPlayers ::
  "string \<Rightarrow> (string \<times> (string \<times> day_record) list) option \<Rightarrow> server \<Rightarrow> server" where
  "loadTodayPlayers today file g =
     (if todayDate g \<noteq> Some today then g\<lparr> todayDate := Some today, todayPlayers := [] \<rparr>
      else (case file of
              None \<Rightarrow> g
            | Some (d, entries) \<Rightarrow>
                if d = today
                then g\<lparr> todayDate := Some d,
                        todayPlayers := fold (\<lambda>e. AList.update (fst e) (snd e)) entries [] \<rparr>
                else g\<lparr> todayDate := Some today, todayPlayers := [] \<rparr>))"

definition startup ::
  "string \<Rightarrow> (string \<times> (string \<times> day_record) list) option \<Rightarrow> rat \<Rightarrow> server \<Rightarrow> server" where
  "startup today file u g =
     (let g1 = loadTodayPlayers today file g; ghostCount = \<lfloor>u * 11\<rfloor> + 95
      in g1\<lparr> ghostPlayers := ghostCount, aliveGhosts := ghostCount \<rparr>)"

section \<open>The round: \<^verbatim>\<open>processAnswers\<close>\<close>

fun indexOf :: "'a list \<Rightarrow> 'a \<Rightarrow> int" where
  "indexOf [] x = - 1"
| "indexOf (y # ys) x =
     (if y = x then 0 else (let k = indexOf ys x in if k < 0 then - 1 else k + 1))"

text \<open>
  The vote count. \<^verbatim>\<open>answerCounts\<close> starts as \<^verbatim>\<open>[0, 0, 0, 0]\<close>. A write under a key that
  is not one of its four indices makes a new property whose value is \<^verbatim>\<open>NaN\<close> and leaves
  the four counts alone; \<open>strayKeys\<close> lists such keys in the order of the writes
  (\<open>None\<close> is the key \<^verbatim>\<open>undefined\<close>). \<^verbatim>\<open>totalAnswers\<close> grows with every write.
\<close>

record tally =
  answerCounts :: "int list"
  totalAnswers :: int
  strayKeys :: "int option list"

definition tally0 :: tally where
  "tally0 = \<lparr> answerCounts = [0, 0, 0, 0], totalAnswers = 0, strayKeys = [] \<rparr>"

definition addVotes :: "int option \<Rightarrow> int \<Rightarrow> tally \<Rightarrow> tally" where
  "addVotes key n t =
     (case key of
        None \<Rightarrow> t\<lparr> strayKeys := strayKeys t @ [key], totalAnswers := totalAnswers t + n \<rparr>
      | Some k \<Rightarrow>
          if 0 \<le> k \<and> k < 4
          then t\<lparr> answerCounts := (answerCounts t)[nat k := answerCounts t ! nat k + n],
                  totalAnswers := totalAnswers t + n \<rparr>
          else t\<lparr> strayKeys := strayKeys t @ [key], totalAnswers := totalAnswers t + n \<rparr>)"

text \<open>The first loop over the players: votes, survivors and eliminated.\<close>

definition playerVote :: "player \<Rightarrow> tally \<Rightarrow> tally" where
  "playerVote p t =
     (if active p then (case currentAnswer p of None \<Rightarrow> t | Some a \<Rightarrow> addVotes (Some a) 1 t)
      else t)"

definition judge :: "int \<Rightarrow> player \<Rightarrow> player" where
  "judge correctIndex p =
     (if active p
      then (if currentAnswer p = Some correctIndex then p\<lparr> correctAnswers := correctAnswers p + 1 \<rparr>
            else p\<lparr> alive := False \<rparr>)
      else p)"

definition survivorIds :: "int \<Rightarrow> (sid \<times> player) list \<Rightarrow> sid list" where
  "survivorIds correctIndex ps =
     map fst (filter (\<lambda>kp. active (snd kp) \<and> currentAnswer (snd kp) = Some correctIndex) ps)"

definition eliminatedIds :: "int \<Rightarrow> (sid \<times> player) list \<Rightarrow> sid list" where
  "eliminatedIds correctIndex ps =
     map fst (filter (\<lambda>kp. active (snd kp) \<and> currentAnswer (snd kp) \<noteq> Some correctIndex) ps)"

text \<open>The ghosts. \<open>u\<close> is the draw behind \<^verbatim>\<open>correctRate\<close>.\<close>

definition correctRate :: "nat \<Rightarrow> rat \<Rightarrow> rat" where
  "correctRate questionNumber u =
     (if questionNumber \<le> 3 then u * (5 / 100) + 90 / 100
      else if questionNumber \<le> 6 then u * (10 / 100) + 65 / 100
      else u * (20 / 100) + 20 / 100)"

definition ghostsAnsweringCorrect :: "int \<Rightarrow> nat \<Rightarrow> rat \<Rightarrow> int" where
  "ghostsAnsweringCorrect ghosts questionNumber u = \<lfloor>of_int ghosts * correctRate questionNumber u\<rfloor>"

text \<open>
  \<^verbatim>\<open>wrongAnswers[Math.floor(Math.random() * wrongAnswers.length)]\<close>, which is
  \<^verbatim>\<open>undefined\<close> outside the array.
\<close>

definition pickWrong :: "int list \<Rightarrow> rat \<Rightarrow> int option" where
  "pickWrong wrongAnswers v =
     (let j = \<lfloor>v * of_nat (length wrongAnswers)\<rfloor>
      in if 0 \<le> j \<and> j < int (length wrongAnswers) then Some (wrongAnswers ! nat j) else None)"

text \<open>The loop over the wrong ghosts; \<open>draws i\<close> is the draw of its \<open>i\<close>-th turn.\<close>

definition ghostWrongVotes :: "int \<Rightarrow> int \<Rightarrow> (nat \<Rightarrow> rat) \<Rightarrow> tally \<Rightarrow> tally" where
  "ghostWrongVotes correctIndex wrong draws t =
     (if wrong > 0
      then fold (\<lambda>i. addVotes (pickWrong (filter (\<lambda>i. i \<noteq> correctIndex) [0, 1, 2, 3]) (draws i)) 1)
             [0 ..< nat wrong] t
      else t)"

text \<open>\<^verbatim>\<open>Math.round\<close> rounds a half up.\<close>

definition jsRound :: "rat \<Rightarrow> int" where
  "jsRound x = \<lfloor>x + 1 / 2\<rfloor>"

definition percentage :: "int \<Rightarrow> int \<Rightarrow> int" where
  "percentage totalVotes n =
     (if totalVotes > 0 then jsRound (of_int n / of_int totalVotes * 100) else 0)"

text \<open>The two loops over \<^verbatim>\<open>eliminated\<close> and the loop over \<^verbatim>\<open>survivors\<close>.\<close>

definition saveEliminated :: "int \<Rightarrow> int \<Rightarrow> nat \<Rightarrow> sid \<Rightarrow> server \<Rightarrow> server" where
  "saveEliminated pos gn questionNumber s g =
     (case map_of (players g) s of
        None \<Rightarrow> g
      | Some p \<Rightarrow>
          let g1 = saveResult s p \<lparr> position = pos, totalPlayers = totalParticipants g,
                     questionsCorrect = correctAnswers p, gameNumber = gn \<rparr> g
          in g1\<lparr> parties := markParty s (partyCode p)
                   (\<lambda>m. m\<lparr> memberStatus := MemberEliminated,
                            eliminatedOnQuestion := Some questionNumber \<rparr>) (parties g1) \<rparr>)"

definition markSurvivor :: "sid \<Rightarrow> server \<Rightarrow> server" where
  "markSurvivor s g =
     (case map_of (players g) s of
        None \<Rightarrow> g
      | Some p \<Rightarrow> g\<lparr> parties := markParty s (partyCode p)
                       (\<lambda>m. m\<lparr> memberStatus := MemberAlive \<rparr>) (parties g) \<rparr>)"

definition eliminatedEvent :: "int \<Rightarrow> int \<Rightarrow> server \<Rightarrow> sid \<Rightarrow> (sid \<times> play_result) list" where
  "eliminatedEvent pos gn g s =
     (case map_of (players g) s of
        None \<Rightarrow> []
      | Some p \<Rightarrow>
          if \<not> leftGame p
          then [(s, \<lparr> position = pos, totalPlayers = totalParticipants g,
                      questionsCorrect = correctAnswers p, gameNumber = gn \<rparr>)]
          else [])"

datatype scheduled = EndGameLater | NextQuestionLater

text \<open>
  What a round hands out: the vote count it worked with, the fields of the
  \<^verbatim>\<open>results\<close> event that do not depend on the receiver, the \<^verbatim>\<open>eliminated\<close> events with
  their receivers, the number of ghosts lost and the callback given to \<^verbatim>\<open>setTimeout\<close>.
\<close>

record round_report =
  votes :: tally
  answerPercentages :: "int list"
  resultsEliminated :: int
  resultsRemaining :: int
  eliminatedEvents :: "(sid \<times> play_result) list"
  ghostsEliminated :: int
  scheduledNext :: scheduled

text \<open>
  \<^verbatim>\<open>processAnswers\<close>. \<open>None\<close> is the \<^verbatim>\<open>TypeError\<close> of reading \<^verbatim>\<open>question.answers\<close> when
  there is no question under the cursor; nothing has been written by then.
\<close>

definition processAnswers ::
  "rat \<Rightarrow> (nat \<Rightarrow> rat) \<Rightarrow> int \<Rightarrow> server \<Rightarrow> (server \<times> round_report) option" where
  "processAnswers u draws gn g =
     (if currentQuestion g \<ge> length (questions g) then None
      else
        let q = questions g ! currentQuestion g;
            correctIndex = indexOf (answers q) (correct q);
            eliminated = eliminatedIds correctIndex (players g);
            survivors = survivorIds correctIndex (players g);
            t1 = fold (\<lambda>kp. playerVote (snd kp)) (players g) tally0;
            g1 = g\<lparr> players := mapPlayers (judge correctIndex) (players g) \<rparr>;
            questionNumber = currentQuestion g + 1;
            ghostsCorrect = ghostsAnsweringCorrect (aliveGhosts g1) questionNumber u;
            ghostsWrong = aliveGhosts g1 - ghostsCorrect;
            t2 = addVotes (Some correctIndex) ghostsCorrect t1;
            t3 = ghostWrongVotes correctIndex ghostsWrong draws t2;
            g2 = g1\<lparr> aliveGhosts := ghostsCorrect \<rparr>;
            percentages = map (percentage (totalAnswers t3)) (answerCounts t3);
            aliveCount = int (length (alivePlayers (players g2)));
            g3 = fold (saveEliminated (aliveCount + int (length eliminated)) gn questionNumber)
                   eliminated g2;
            g4 = fold markSurvivor survivors g3;
            events = concat (map (eliminatedEvent
                       (aliveCount + aliveGhosts g4 + int (length eliminated) + ghostsWrong) gn g4)
                       eliminated);
            totalRemaining = aliveCount + aliveGhosts g4;
            ending = (currentQuestion g4 \<ge> 9 \<or> totalRemaining \<le> 1);
            report = \<lparr> votes = t3, answerPercentages = percentages,
                       resultsEliminated = int (length eliminated) + ghostsWrong,
                       resultsRemaining = aliveCount + aliveGhosts g4,
                       eliminatedEvents = events, ghostsEliminated = ghostsWrong,
                       scheduledNext = (if ending then EndGameLater else NextQuestionLater) \<rparr>
        in Some (if ending then g4 else g4\<lparr> currentQuestion := currentQuestion g4 + 1 \<rparr>, report))"

text \<open>
  A round together with the callback it schedules: \<^verbatim>\<open>endGame\<close>, or \<^verbatim>\<open>nextQuestion\<close>
  (which ends the game itself once the questions are used up).
\<close>

definition roundThenNext :: "rat \<Rightarrow> (nat \<Rightarrow> rat) \<Rightarrow> int \<Rightarrow> server \<Rightarrow> server option" where
  "roundThenNext u draws gn g =
     (case processAnswers u draws gn g of
        None \<Rightarrow> None
      | Some (g1, report) \<Rightarrow>
          Some (case scheduledNext report of
                  EndGameLater \<Rightarrow> fst (endGame gn g1)
                | NextQuestionLater \<Rightarrow> nextQuestion gn g1))"

section \<open>The server as a transition system\<close>

text \<open>
  One constructor for every socket handler, timer callback and scheduled job. The
  callbacks of one game are separate events (\<open>QuestionsFetched\<close> and \<open>CountdownDone\<close>
  resume \<^verbatim>\<open>startGame\<close> after its two waits), since handlers of other sockets run in
  between. \<open>handle\<close> yields \<open>None\<close> when the handler does not return: the code loop of
  \<^verbatim>\<open>generatePartyCode\<close> that finds no free code, the \<^verbatim>\<open>TypeError\<close> of
  \<^verbatim>\<open>processAnswers\<close>.
\<close>

datatype event =
    Connect sid
  | Identify sid "string option" string
  | Disconnect sid
  | LeaveGame sid
  | SubmitAnswer sid "int option"
  | CreateParty sid string "string list"
  | JoinParty sid string string
  | LeaveParty sid
  | AutoStart
  | QuestionsFetched "question list"
  | CountdownDone int
  | TimerExpired rat "nat \<Rightarrow> rat" int
  | NextQuestionDue int
  | EndGameDue int
  | ResetDue rat
  | Midnight string
  | Startup string "(string \<times> (string \<times> day_record) list) option" rat

fun handle :: "(string \<Rightarrow> bool) \<Rightarrow> event \<Rightarrow> server \<Rightarrow> server option" where
  "handle profane (Connect s) g = Some (connect s g)"
| "handle profane (Identify s i today) g = Some (identify s i today g)"
| "handle profane (Disconnect s) g = Some (disconnect s g)"
| "handle profane (LeaveGame s) g = Some (leaveGame s g)"
| "handle profane (SubmitAnswer s a) g = Some (submitAnswer s a g)"
| "handle profane (CreateParty s name draws) g = map_option fst (createParty profane s name draws g)"
| "handle profane (JoinParty s c name) g = Some (fst (joinParty profane s c name g))"
| "handle profane (LeaveParty s) g = Some (leaveParty s g)"
| "handle profane AutoStart g = Some (autoStartGame g)"
| "handle profane (QuestionsFetched qs) g = Some (startGameEnrol qs g)"
| "handle profane (CountdownDone gn) g = Some (startGamePlay gn g)"
| "handle profane (TimerExpired u draws gn) g = map_option fst (processAnswers u draws gn g)"
| "handle profane (NextQuestionDue gn) g = Some (nextQuestion gn g)"
| "handle profane (EndGameDue gn) g = Some (fst (endGame gn g))"
| "handle profane (ResetDue u) g = Some (resetGame u g)"
| "handle profane (Midnight today) g = Some (midnightReset today g)"
| "handle profane (Startup today file u) g = Some (startup today file u g)"

text \<open>
  What the environment guarantees of an event: a value of \<^verbatim>\<open>Math.random()\<close> lies in
  \<open>[0, 1)\<close>.
\<close>

definition unit_draw :: "rat \<Rightarrow> bool" where
  "unit_draw u = (0 \<le> u \<and> u < 1)"

fun admissible :: "event \<Rightarrow> bool" where
  "admissible (TimerExpired u draws gn) = (unit_draw u \<and> (\<forall>i. unit_draw (draws i)))"
| "admissible (ResetDue u) = unit_draw u"
| "admissible (Startup today file u) = unit_draw u"
| "admissible ev = True"

text \<open>
  The states the server can be in: from \<open>boot\<close>, any admissible event in any order.
  The timers of the real server fire in a fixed order and its socket ids are fresh, so
  this set contains every state of a real run.
\<close>

inductive reachable :: "(string \<Rightarrow> bool) \<Rightarrow> server \<Rightarrow> bool" for profane :: "string \<Rightarrow> bool" where
  reachable_boot: "reachable profane boot"
| reachable_step:
    "reachable profane g \<Longrightarrow> admissible ev \<Longrightarrow> handle profane ev g = Some g' \<Longrightarrow>
     reachable profane g'"

text \<open>Running a list of events from a state; \<open>None\<close> once a handler does not return.\<close>

fun run :: "(string \<Rightarrow> bool) \<Rightarrow> event list \<Rightarrow> server \<Rightarrow> server option" where
  "run profane [] g = Some g"
| "run profane (ev # evs) g =
     (case handle profane ev g of None \<Rightarrow> None | Some g' \<Rightarrow> run profane evs g')"

section \<open>Notions used in the properties\<close>

text \<open>\<^verbatim>\<open>totalRemaining\<close>: the real players still in the game plus the alive ghosts.\<close>

definition totalRemaining :: "server \<Rightarrow> int" where
  "totalRemaining g = int (length (alivePlayers (players g))) + aliveGhosts g"

text \<open>The two events that give the ghost population a new value.\<close>

fun startsCycle :: "event \<Rightarrow> bool" where
  "startsCycle (ResetDue u) = True"
| "startsCycle (Startup today file u) = True"
| "startsCycle ev = False"





section \<open>Sample runs\<close>

text \<open>
  Concrete runs of the server, used to evaluate the properties below on real inputs.
  Nothing is profane in them; \<open>after evs\<close> is the state after the events \<open>evs\<close> from
  \<open>boot\<close>.
\<close>

definition demoQuestions :: "question list" where
  "demoQuestions = replicate 10 \<lparr> correct = ''B'', answers = [''A'', ''B'', ''C'', ''D''] \<rparr>"

definition after :: "event list \<Rightarrow> server" where
  "after evs = (case run (\<lambda>_. False) evs boot of None \<Rightarrow> boot | Some g \<Rightarrow> g)"

text \<open>
  Two identified players in the first round of a game with 95 ghosts; A has answered
  with the correct index 1, B with 0.
\<close>

definition roundOne :: "event list" where
  "roundOne = [Startup ''Mon'' None 0, Connect ''A'', Connect ''B'',
     Identify ''A'' (Some ''a'') ''Mon'', Identify ''B'' (Some ''b'') ''Mon'',
     AutoStart, QuestionsFetched demoQuestions, CountdownDone 5,
     SubmitAnswer ''A'' (Some 1), SubmitAnswer ''B'' (Some 0)]"


text \<open>The source of draws that always yields 0.\<close>

definition zeroDraws :: "nat \<Rightarrow> rat" where
  "zeroDraws i = 0"

text \<open>
  The two players of \<open>roundOne\<close> after \<open>n\<close> rounds that both survived, every draw
  being 0: the ghosts go 95, 85, 76, 68, 44, 28, 18, 3, 0.
\<close>

definition bothSurvive :: "nat \<Rightarrow> event list" where
  "bothSurvive n = [Startup ''Mon'' None 0, Connect ''A'', Connect ''B'',
     Identify ''A'' (Some ''a'') ''Mon'', Identify ''B'' (Some ''b'') ''Mon'',
     AutoStart, QuestionsFetched demoQuestions, CountdownDone 5]
   @ concat (replicate n [SubmitAnswer ''A'' (Some 1), SubmitAnswer ''B'' (Some 1),
       TimerExpired 0 zeroDraws 5, NextQuestionDue 5])"

text \<open>The tenth round, both answers correct.\<close>

definition tenthRound :: "event list" where
  "tenthRound = bothSurvive 9 @ [SubmitAnswer ''A'' (Some 1), SubmitAnswer ''B'' (Some 1)]"

text \<open>The ninth round, no ghost left, A correct and B wrong.\<close>

definition ninthRound :: "event list" where
  "ninthRound = bothSurvive 8 @ [SubmitAnswer ''A'' (Some 1), SubmitAnswer ''B'' (Some 0)]"






text \<open>One connection that creates a party twice; the second code drawn is taken at first.\<close>

definition twoParties :: "event list" where
  "twoParties = [Startup ''Mon'' None 0, Connect ''A'',
     CreateParty ''A'' ''Ann'' [''PARTY2''], CreateParty ''A'' ''Ann'' [''PARTY2'', ''PARTY3'']]"

text \<open>The first round of \<open>roundOne\<close>, but B has sent the answer index 7.\<close>

definition strayAnswer :: "event list" where
  "strayAnswer = [Startup ''Mon'' None 0, Connect ''A'', Connect ''B'',
     Identify ''A'' (Some ''a'') ''Mon'', Identify ''B'' (Some ''b'') ''Mon'',
     AutoStart, QuestionsFetched demoQuestions, CountdownDone 5,
     SubmitAnswer ''A'' (Some 1), SubmitAnswer ''B'' (Some 7)]"

section \<open>Auxiliary facts\<close>

lemma mapPlayers_map_of: "map_of (mapPlayers f ps) s = map_option f (map_of ps s)"
  by (induction ps) (auto simp: mapPlayers_def)

lemma fold_keeps:
  assumes "\<And>x a. h (f x a) = h a"
  shows "h (fold f xs a) = h a"
  by (induction xs arbitrary: a) (simp_all add: assms)

lemma saveResult_keeps [simp]:
  "status (saveResult s p r g) = status g"
  "currentQuestion (saveResult s p r g) = currentQuestion g"
  "questions (saveResult s p r g) = questions g"
  "totalParticipants (saveResult s p r g) = totalParticipants g"
  "ghostPlayers (saveResult s p r g) = ghostPlayers g"
  "aliveGhosts (saveResult s p r g) = aliveGhosts g"
  "todayDate (saveResult s p r g) = todayDate g"
  "parties (saveResult s p r g) = parties g"
  by (simp_all add: saveResult_def split: option.splits)

lemma saveEliminated_keeps [simp]:
  "status (saveEliminated pos gn qn s g) = status g"
  "currentQuestion (saveEliminated pos gn qn s g) = currentQuestion g"
  "questions (saveEliminated pos gn qn s g) = questions g"
  "totalParticipants (saveEliminated pos gn qn s g) = totalParticipants g"
  "ghostPlayers (saveEliminated pos gn qn s g) = ghostPlayers g"
  "aliveGhosts (saveEliminated pos gn qn s g) = aliveGhosts g"
  "todayDate (saveEliminated pos gn qn s g) = todayDate g"
  by (simp_all add: saveEliminated_def Let_def split: option.splits)

lemma markSurvivor_keeps [simp]:
  "status (markSurvivor s g) = status g"
  "currentQuestion (markSurvivor s g) = currentQuestion g"
  "questions (markSurvivor s g) = questions g"
  "totalParticipants (markSurvivor s g) = totalParticipants g"
  "ghostPlayers (markSurvivor s g) = ghostPlayers g"
  "aliveGhosts (markSurvivor s g) = aliveGhosts g"
  "todayDate (markSurvivor s g) = todayDate g"
  "todayPlayers (markSurvivor s g) = todayPlayers g"
  "players (markSurvivor s g) = players g"
  by (simp_all add: markSurvivor_def split: option.splits)

lemma saveWinner_keeps [simp]:
  "status (saveWinner gn s g) = status g"
  "currentQuestion (saveWinner gn s g) = currentQuestion g"
  "questions (saveWinner gn s g) = questions g"
  "totalParticipants (saveWinner gn s g) = totalParticipants g"
  "ghostPlayers (saveWinner gn s g) = ghostPlayers g"
  "aliveGhosts (saveWinner gn s g) = aliveGhosts g"
  "todayDate (saveWinner gn s g) = todayDate g"
  "parties (saveWinner gn s g) = parties g"
  by (simp_all add: saveWinner_def split: option.splits)

lemma fold_saveEliminated_keeps [simp]:
  "status (fold (saveEliminated pos gn qn) ids g) = status g"
  "currentQuestion (fold (saveEliminated pos gn qn) ids g) = currentQuestion g"
  "questions (fold (saveEliminated pos gn qn) ids g) = questions g"
  "totalParticipants (fold (saveEliminated pos gn qn) ids g) = totalParticipants g"
  "ghostPlayers (fold (saveEliminated pos gn qn) ids g) = ghostPlayers g"
  "aliveGhosts (fold (saveEliminated pos gn qn) ids g) = aliveGhosts g"
  "todayDate (fold (saveEliminated pos gn qn) ids g) = todayDate g"
  by (rule fold_keeps, simp)+

lemma fold_markSurvivor_keeps [simp]:
  "status (fold markSurvivor ids g) = status g"
  "currentQuestion (fold markSurvivor ids g) = currentQuestion g"
  "questions (fold markSurvivor ids g) = questions g"
  "totalParticipants (fold markSurvivor ids g) = totalParticipants g"
  "ghostPlayers (fold markSurvivor ids g) = ghostPlayers g"
  "aliveGhosts (fold markSurvivor ids g) = aliveGhosts g"
  "todayDate (fold markSurvivor ids g) = todayDate g"
  "todayPlayers (fold markSurvivor ids g) = todayPlayers g"
  "players (fold markSurvivor ids g) = players g"
  by (rule fold_keeps, simp)+

lemma fold_saveWinner_keeps [simp]:
  "status (fold (\<lambda>kp. saveWinner gn (fst kp)) ws g) = status g"
  "currentQuestion (fold (\<lambda>kp. saveWinner gn (fst kp)) ws g) = currentQuestion g"
  "questions (fold (\<lambda>kp. saveWinner gn (fst kp)) ws g) = questions g"
  "totalParticipants (fold (\<lambda>kp. saveWinner gn (fst kp)) ws g) = totalParticipants g"
  "ghostPlayers (fold (\<lambda>kp. saveWinner gn (fst kp)) ws g) = ghostPlayers g"
  "aliveGhosts (fold (\<lambda>kp. saveWinner gn (fst kp)) ws g) = aliveGhosts g"
  "todayDate (fold (\<lambda>kp. saveWinner gn (fst kp)) ws g) = todayDate g"
  "parties (fold (\<lambda>kp. saveWinner gn (fst kp)) ws g) = parties g"
  by (rule fold_keeps, simp)+

text \<open>What a round leaves of the fields that steer the game.\<close>

lemma processAnswers_control:
  assumes "processAnswers u draws gn g = Some (g', report)"
  shows "status g' = status g" "questions g' = questions g"
    "ghostPlayers g' = ghostPlayers g" "todayDate g' = todayDate g"
    "totalParticipants g' = totalParticipants g"
    "aliveGhosts g' = ghostsAnsweringCorrect (aliveGhosts g) (currentQuestion g + 1) u"
    "ghostsEliminated report = aliveGhosts g - aliveGhosts g'"
    "currentQuestion g < length (questions g)"
  using assms
  by (auto simp: processAnswers_def Let_def split: if_splits)

lemma endGame_control [simp]:
  "status (fst (endGame gn g)) = Finished"
  "currentQuestion (fst (endGame gn g)) = currentQuestion g"
  "ghostPlayers (fst (endGame gn g)) = ghostPlayers g"
  "aliveGhosts (fst (endGame gn g)) = aliveGhosts g"
  "todayDate (fst (endGame gn g)) = todayDate g"
  "parties (fst (endGame gn g)) = parties g"
  by (simp_all add: endGame_def Let_def)

lemma correctRate_band:
  assumes "unit_draw u"
  shows "20 / 100 \<le> correctRate n u" "correctRate n u < 95 / 100"
  using assms by (auto simp: correctRate_def unit_draw_def)

lemma ghostsAnsweringCorrect_bounds:
  assumes "unit_draw u" "0 \<le> a"
  shows "0 \<le> ghostsAnsweringCorrect a n u" "ghostsAnsweringCorrect a n u \<le> a"
proof -
  have r: "0 \<le> correctRate n u" "correctRate n u \<le> 1"
    using correctRate_band [OF assms(1), of n] by simp_all
  have "0 \<le> (of_int a :: rat) * correctRate n u" using assms(2) r(1) by simp
  then show "0 \<le> ghostsAnsweringCorrect a n u" by (simp add: ghostsAnsweringCorrect_def)
  have "(of_int a :: rat) * correctRate n u \<le> of_int a * 1"
    using assms(2) r(2) by (intro mult_left_mono) simp_all
  then have "\<lfloor>(of_int a :: rat) * correctRate n u\<rfloor> \<le> \<lfloor>of_int a :: rat\<rfloor>"
    by (intro floor_mono) simp
  then show "ghostsAnsweringCorrect a n u \<le> a" by (simp add: ghostsAnsweringCorrect_def)
qed

lemma ghostCount_bounds:
  assumes "unit_draw u"
  shows "95 \<le> \<lfloor>u * 11\<rfloor> + 95" "\<lfloor>u * 11\<rfloor> + 95 \<le> 105"
proof -
  have "0 \<le> u * 11" "u * 11 < 11" using assms by (simp_all add: unit_draw_def)
  then have "0 \<le> \<lfloor>u * 11\<rfloor>" "\<lfloor>u * 11\<rfloor> < 11" by (simp_all add: floor_less_iff)
  then show "95 \<le> \<lfloor>u * 11\<rfloor> + 95" "\<lfloor>u * 11\<rfloor> + 95 \<le> 105" by simp_all
qed

lemma handle_ghosts:
  assumes "handle profane ev g = Some g'" "\<not> startsCycle ev"
    "\<And>u draws gn. ev \<noteq> TimerExpired u draws gn"
  shows "aliveGhosts g' = aliveGhosts g \<and> ghostPlayers g' = ghostPlayers g"
  using assms
  by (cases ev)
     (auto simp: connect_def identify_def disconnect_def leaveGame_def submitAnswer_def
        createParty_def joinParty_def leaveParty_def autoStartGame_def startGameEnrol_def
        startGamePlay_def nextQuestion_def midnightReset_def Let_def
        split: option.splits if_splits)

lemma handle_ghosts_step:
  assumes "handle profane ev g = Some g'" "admissible ev" "0 \<le> aliveGhosts g"
    "aliveGhosts g \<le> ghostPlayers g"
  shows "0 \<le> aliveGhosts g' \<and> aliveGhosts g' \<le> ghostPlayers g' \<and>
    (\<not> startsCycle ev \<longrightarrow> aliveGhosts g' \<le> aliveGhosts g)"
proof (cases ev)
  case (TimerExpired u draws gn)
  then obtain report where p: "processAnswers u draws gn g = Some (g', report)"
    using assms(1) by auto
  have u: "unit_draw u" using assms(2) TimerExpired by simp
  show ?thesis
    using processAnswers_control(3,6) [OF p] ghostsAnsweringCorrect_bounds [OF u assms(3)] assms(4)
    by (simp add: TimerExpired) (smt (verit))
next
  case (ResetDue u)
  then show ?thesis using assms ghostCount_bounds [of u]
    by (auto simp: resetGame_def Let_def)
next
  case (Startup today content u)
  then show ?thesis using assms ghostCount_bounds [of u]
    by (auto simp: startup_def Let_def)
qed (use assms handle_ghosts [OF assms(1)] in auto)

lemma reachable_run:
  assumes "reachable profane g" "list_all admissible evs" "run profane evs g = Some g'"
  shows "reachable profane g'"
  using assms
proof (induction evs arbitrary: g)
  case Nil
  then show ?case by simp
next
  case (Cons ev evs)
  then obtain g1 where h: "handle profane ev g = Some g1" "run profane evs g1 = Some g'"
    by (auto split: option.splits)
  have "reachable profane g1"
    using Cons.prems(1,2) h(1) by (auto intro: reachable_step)
  then show ?case using Cons.IH h(2) Cons.prems(2) by simp
qed

lemma reachable_after:
  assumes "list_all admissible evs" "run (\<lambda>_. False) evs boot \<noteq> None"
  shows "reachable (\<lambda>_. False) (after evs)"
proof -
  from assms(2) obtain g where g: "run (\<lambda>_. False) evs boot = Some g" by auto
  then have "after evs = g" by (simp add: after_def)
  then show ?thesis using reachable_run [OF reachable_boot assms(1) g] by simp
qed

lemma update_filter_length:
  assumes "map_of ps s = Some p" "f p' = f p"
  shows "length (filter (\<lambda>kp. f (snd kp)) (AList.update s p' ps)) =
         length (filter (\<lambda>kp. f (snd kp)) ps)"
  using assms by (induction ps) (auto split: if_splits)

lemma saveResult_alive:
  assumes "map_of (players g) s = Some p"
  shows "length (alivePlayers (players (saveResult s p r g))) = length (alivePlayers (players g))"
proof -
  have "length (filter (\<lambda>kp. active (snd kp)) (AList.update s p' (players g))) =
        length (filter (\<lambda>kp. active (snd kp)) (players g))" if "active p' = active p" for p'
    using update_filter_length [of "players g" s p active p'] assms that by simp
  then show ?thesis
    by (auto simp: saveResult_def alivePlayers_def active_def split: option.splits)
qed

lemma saveEliminated_alive [simp]:
  "length (alivePlayers (players (saveEliminated pos gn qn s g))) = length (alivePlayers (players g))"
  by (auto simp: saveEliminated_def Let_def saveResult_alive split: option.splits)

lemma saveWinner_alive [simp]:
  "length (alivePlayers (players (saveWinner gn s g))) = length (alivePlayers (players g))"
  by (auto simp: saveWinner_def saveResult_alive split: option.splits)

lemma fold_saveEliminated_alive [simp]:
  "length (alivePlayers (players (fold (saveEliminated pos gn qn) ids g))) =
   length (alivePlayers (players g))"
  by (induction ids arbitrary: g) simp_all

lemma processAnswers_schedule:
  assumes "processAnswers u draws gn g = Some (g', report)"
  shows "resultsRemaining report = int (length (alivePlayers (players g'))) + aliveGhosts g'"
    "resultsRemaining report = totalRemaining g'"
    "scheduledNext report =
       (if 9 \<le> currentQuestion g \<or> resultsRemaining report \<le> 1 then EndGameLater
        else NextQuestionLater)"
    "currentQuestion g' =
       (if 9 \<le> currentQuestion g \<or> resultsRemaining report \<le> 1 then currentQuestion g
        else currentQuestion g + 1)"
  using assms
  by (auto simp: processAnswers_def totalRemaining_def Let_def split: if_splits)

lemma round_end_general:
  assumes "processAnswers u draws gn g = Some (g1, report)"
  shows "\<exists>g2. roundThenNext u draws gn g = Some g2 \<and>
     (status g2 = Finished \<longleftrightarrow>
        status g = Finished \<or> 9 \<le> currentQuestion g \<or>
        totalRemaining g1 \<le> 1 \<or>
        length (questions g) \<le> currentQuestion g + 1) \<and>
     (status g2 \<noteq> Finished \<longrightarrow> status g2 = status g \<and> currentQuestion g2 = currentQuestion g + 1) \<and>
     (status g2 = Finished \<longrightarrow> currentQuestion g2 = currentQuestion g1)"
  using processAnswers_schedule [OF assms] processAnswers_control(1,2,8) [OF assms] assms
  by (auto simp: roundThenNext_def nextQuestion_def split: if_splits)











lemma mapPlayers_keys [simp]: "map fst (mapPlayers f ps) = map fst ps"
  by (simp add: mapPlayers_def comp_def)























section \<open>Properties\<close>

text \<open>
  C9. The reset from Finished to Waiting empties the party registry and, for every
  connected session, clears ready, sets alive, zeroes the correct-answer count and clears
  participated-in-game, while has-played-today and the stored result stay as they were.
\<close>

theorem resetGame_frame:
  assumes "map_of (players g) s = Some p"
  shows "status (resetGame u g) = Waiting \<and> parties (resetGame u g) = [] \<and>
    (\<exists>p'. map_of (players (resetGame u g)) s = Some p' \<and>
       \<not> ready p' \<and> alive p' \<and> correctAnswers p' = 0 \<and> \<not> participatedInGame p' \<and>
       hasPlayedToday p' = hasPlayedToday p \<and> todayResult p' = todayResult p)"
  using assms by (simp add: resetGame_def Let_def mapPlayers_map_of)

theorem resetGame_frame_witness:
  "status (resetGame 0 (after roundOne)) = Waiting \<and> parties (resetGame 0 (after roundOne)) = [] \<and>
    (\<exists>p'. map_of (players (resetGame 0 (after roundOne))) ''A'' = Some p' \<and>
       \<not> ready p' \<and> alive p' \<and> correctAnswers p' = 0 \<and> \<not> participatedInGame p' \<and>
       hasPlayedToday p' = True \<and> todayResult p' = None)"
proof -
  have h: "map_of (players (after roundOne)) ''A'' =
    Some \<lparr>persistentId = Some ''a'', alive = True, currentAnswer = Some 1,
            correctAnswers = 0, hasPlayedToday = True, todayResult = None,
            partyCode = None, partyDisplayName = None, ready = True,
            leftGame = False, participatedInGame = True\<rparr>"
    by code_simp
  show ?thesis using resetGame_frame [OF h, of 0] by simp
qed





text \<open>
  C6. In every reachable state the number of alive ghosts lies between 0 and the ghost
  population, and no event other than the reset and the start of the process (which
  draw a new population) raises it: from one round of a game to the next it never grows.
\<close>

theorem ghost_count_invariant:
  assumes "reachable profane g"
  shows "0 \<le> aliveGhosts g \<and> aliveGhosts g \<le> ghostPlayers g \<and>
    (\<forall>ev g'. admissible ev \<longrightarrow> handle profane ev g = Some g' \<longrightarrow> \<not> startsCycle ev \<longrightarrow>
       aliveGhosts g' \<le> aliveGhosts g)"
proof -
  have inv: "0 \<le> aliveGhosts g \<and> aliveGhosts g \<le> ghostPlayers g"
    using assms
  proof (induction rule: reachable.induct)
    case reachable_boot
    show ?case by (simp add: boot_def)
  next
    case (reachable_step g ev g')
    then show ?case using handle_ghosts_step [of profane ev g g'] by blast
  qed
  then show ?thesis using handle_ghosts_step [of profane _ g] by blast
qed

theorem ghost_count_invariant_witness:
  "0 \<le> aliveGhosts (after roundOne) \<and> aliveGhosts (after roundOne) \<le> ghostPlayers (after roundOne) \<and>
   aliveGhosts (fst (the (processAnswers 0 zeroDraws 5 (after roundOne)))) \<le> aliveGhosts (after roundOne)"
proof -
  have a: "list_all admissible roundOne" by (simp add: roundOne_def unit_draw_def)
  have b: "run (\<lambda>_. False) roundOne boot \<noteq> None" by code_simp
  have r: "reachable (\<lambda>_. False) (after roundOne)" by (rule reachable_after [OF a b])
  have "processAnswers 0 zeroDraws 5 (after roundOne) \<noteq> None" by code_simp
  then have h: "handle (\<lambda>_. False) (TimerExpired 0 zeroDraws 5) (after roundOne) =
      Some (fst (the (processAnswers 0 zeroDraws 5 (after roundOne))))"
    by auto
  have e: "admissible (TimerExpired 0 zeroDraws 5)" by (simp add: unit_draw_def zeroDraws_def)
  show ?thesis using ghost_count_invariant [OF r] h e by fastforce
qed

text \<open>
  C1, as the code has it. With the day's ten questions, a round of a game in progress is
  followed by Finished exactly when the question just processed has the 0-based index 9
  (it is the tenth) or the real survivors plus the alive ghosts are at most 1; so a
  single real survivor with no ghost left ends the game at once. Otherwise the game
  stays in Playing with the index advanced by one. The index never becomes 10.
\<close>

theorem round_end_decision:
  assumes "status g = Playing" "length (questions g) = 10"
    "processAnswers u draws gn g = Some (g1, report)"
  shows "\<exists>g2. roundThenNext u draws gn g = Some g2 \<and>
     (status g2 = Finished \<longleftrightarrow>
        9 \<le> currentQuestion g \<or>
        totalRemaining g1 \<le> 1) \<and>
     (length (alivePlayers (players g1)) = 1 \<and> aliveGhosts g1 = 0 \<longrightarrow>
        status g2 = Finished) \<and>
     (status g2 \<noteq> Finished \<longrightarrow> status g2 = Playing \<and> currentQuestion g2 = currentQuestion g + 1) \<and>
     currentQuestion g2 \<le> 9"
proof -
  obtain g2 where g2: "roundThenNext u draws gn g = Some g2"
    and fin: "status g2 = Finished \<longleftrightarrow>
        status g = Finished \<or> 9 \<le> currentQuestion g \<or>
        totalRemaining g1 \<le> 1 \<or>
        length (questions g) \<le> currentQuestion g + 1"
    and nf: "status g2 \<noteq> Finished \<longrightarrow> status g2 = status g \<and> currentQuestion g2 = currentQuestion g + 1"
    and ff: "status g2 = Finished \<longrightarrow> currentQuestion g2 = currentQuestion g1"
    using round_end_general [OF assms(3)] by blast
  have lt: "currentQuestion g < 10" using processAnswers_control(8) [OF assms(3)] assms(2) by simp
  have c1: "currentQuestion g1 \<le> 9"
    using processAnswers_schedule(4) [OF assms(3)] lt by (auto split: if_splits)
  have "currentQuestion g2 \<le> 9"
  proof (cases "status g2 = Finished")
    case True
    then show ?thesis using ff c1 by simp
  next
    case False
    then show ?thesis using fin nf by auto
  qed
  then show ?thesis using g2 fin nf assms(1,2) by (auto simp: totalRemaining_def)
qed

theorem round_end_decision_witness:
  "(\<exists>g2. roundThenNext 0 zeroDraws 5 (after ninthRound) = Some g2 \<and> status g2 = Finished \<and>
      currentQuestion g2 = 8) \<and>
   (\<exists>g2. roundThenNext 0 zeroDraws 5 (after roundOne) = Some g2 \<and> status g2 = Playing \<and>
      currentQuestion g2 = 1)"
proof -
  have s9: "status (after ninthRound) = Playing" by code_simp
  have q9: "length (questions (after ninthRound)) = 10" by code_simp
  have "processAnswers 0 zeroDraws 5 (after ninthRound) \<noteq> None" by code_simp
  then have p9: "processAnswers 0 zeroDraws 5 (after ninthRound) =
      Some (fst (the (processAnswers 0 zeroDraws 5 (after ninthRound))),
            snd (the (processAnswers 0 zeroDraws 5 (after ninthRound))))" by auto
  have r9: "totalRemaining (fst (the (processAnswers 0 zeroDraws 5 (after ninthRound)))) = 1"
    by code_simp
  have c9: "currentQuestion (after ninthRound) = 8" by code_simp
  have s1: "status (after roundOne) = Playing" by code_simp
  have q1: "length (questions (after roundOne)) = 10" by code_simp
  have "processAnswers 0 zeroDraws 5 (after roundOne) \<noteq> None" by code_simp
  then have p1: "processAnswers 0 zeroDraws 5 (after roundOne) =
      Some (fst (the (processAnswers 0 zeroDraws 5 (after roundOne))),
            snd (the (processAnswers 0 zeroDraws 5 (after roundOne))))" by auto
  have r1: "totalRemaining (fst (the (processAnswers 0 zeroDraws 5 (after roundOne)))) = 86"
    by code_simp
  have c1: "currentQuestion (after roundOne) = 0" by code_simp
  have n: "map_option currentQuestion (roundThenNext 0 zeroDraws 5 (after ninthRound)) = Some 8"
    by code_simp
  show ?thesis
    using round_end_decision [OF s9 q9 p9] round_end_decision [OF s1 q1 p1] r9 r1 c9 c1 n
    by auto
qed

text \<open>
  C1 as stated fails: after the tenth round with two real survivors and no ghost the game
  is Finished although the question index is 9, not 10, and two participants remain.
\<close>

theorem round_end_counterexample:
  "currentQuestion (after tenthRound) = 9 \<and>
   map_option status (roundThenNext 0 zeroDraws 5 (after tenthRound)) = Some Finished \<and>
   map_option currentQuestion (roundThenNext 0 zeroDraws 5 (after tenthRound)) = Some 9 \<and>
   map_option totalRemaining (roundThenNext 0 zeroDraws 5 (after tenthRound)) = Some 2"
  by code_simp







text \<open>
  C2 on a concrete round (95 ghosts, A right, B wrong): the position written to the
  ledger for B counts the real players only (1 alive + 1 eliminated = 2), the position
  sent in B's \<^verbatim>\<open>eliminated\<close> event counts the ghosts as well (1 + 85 + 1 + 10 = 97). The two
  are not one shared position.
\<close>

theorem eliminated_position_differs:
  "map_option (todayPlayers \<circ> fst) (processAnswers 0 zeroDraws 5 (after roundOne))
     = Some [(''b'', \<lparr>hasPlayed = True, result = \<lparr>position = 2, totalPlayers = 97,
          questionsCorrect = 0, gameNumber = 5\<rparr>\<rparr>)] \<and>
   map_option (eliminatedEvents \<circ> snd) (processAnswers 0 zeroDraws 5 (after roundOne))
     = Some [(''B'', \<lparr>position = 97, totalPlayers = 97, questionsCorrect = 0, gameNumber = 5\<rparr>)]"
  by code_simp

text \<open>
  C7 on a concrete run: a connection that creates a second party while in one is listed
  as a member of both, and its stored party code names the second only.
\<close>

theorem session_in_two_parties:
  "map (map socketId \<circ> members \<circ> snd) (parties (after twoParties)) = [[''A''], [''A'']] \<and>
   map fst (parties (after twoParties)) = [''PARTY2'', ''PARTY3''] \<and>
   map_option partyCode (map_of (players (after twoParties)) ''A'') = Some (Some ''PARTY3'')"
  by code_simp

text \<open>
  C10 on a concrete run: the answer index 7 sent by a player in the game is stored, and
  the round uses it as a key of the vote count, outside its four slots; the total then
  counts 97 votes where the four slots hold 96.
\<close>

theorem answer_index_out_of_range:
  "map_option currentAnswer (map_of (players (after strayAnswer)) ''B'') = Some (Some 7) \<and>
   map_option (strayKeys \<circ> votes \<circ> snd) (processAnswers 0 zeroDraws 5 (after strayAnswer))
     = Some [Some 7] \<and>
   map_option (answerCounts \<circ> votes \<circ> snd) (processAnswers 0 zeroDraws 5 (after strayAnswer))
     = Some [10, 86, 0, 0] \<and>
   map_option (totalAnswers \<circ> votes \<circ> snd) (processAnswers 0 zeroDraws 5 (after strayAnswer))
     = Some 97"
  by code_simp

end
